theory Spec2Isabelle
  imports Complex_Main "HOL-Library.Word"
begin

section \<open>Element types\<close>

text \<open>
  \<^verbatim>\<open>Vector<T, N>\<close> is a class template. The element type \<^verbatim>\<open>T\<close> becomes a type variable
  \<open>'a\<close> whose sort names the operators the template body applies to \<^verbatim>\<open>T\<close>:
  \<^verbatim>\<open>T(0)\<close> is \<open>0\<close>, \<^verbatim>\<open>T(1)\<close> is \<open>1\<close>, and \<^verbatim>\<open>+ - * / <\<close> are the overloaded constants of
  \<open>plus\<close>, \<open>minus\<close>, \<open>times\<close>, \<open>divide\<close> and \<open>ord\<close>. The dimension \<^verbatim>\<open>N\<close> becomes an
  explicit argument \<open>N\<close>.

  The header names three element types: \<^verbatim>\<open>float\<close>, \<^verbatim>\<open>double\<close> and \<^verbatim>\<open>int\<close>.
  \<^item> \<^verbatim>\<open>float\<close> and \<^verbatim>\<open>double\<close> are read as \<open>real\<close>: exact arithmetic, no rounding, no
    infinities and no NaN. Nothing below speaks about rounding error.
  \<^item> \<^verbatim>\<open>int\<close> is the type \<open>cint\<close>: a 32-bit word read as two's complement, whose
    \<open>+\<close>, \<open>-\<close> and \<open>*\<close> are the word's and whose quotient is truncated towards zero.
\<close>

datatype cint = CInt "32 word"

text \<open>The quotient of two integers, truncated towards zero.\<close>

definition quot :: "int \<Rightarrow> int \<Rightarrow> int" where
  "quot a b = (if (a < 0) = (b < 0) then \<bar>a\<bar> div \<bar>b\<bar> else - (\<bar>a\<bar> div \<bar>b\<bar>))"

instantiation cint :: comm_ring_1
begin

definition zero_cint :: cint where
  "zero_cint = CInt 0"

definition one_cint :: cint where
  "one_cint = CInt 1"

fun plus_cint :: "cint \<Rightarrow> cint \<Rightarrow> cint" where
  "plus_cint (CInt a) (CInt b) = CInt (a + b)"

fun minus_cint :: "cint \<Rightarrow> cint \<Rightarrow> cint" where
  "minus_cint (CInt a) (CInt b) = CInt (a - b)"

fun uminus_cint :: "cint \<Rightarrow> cint" where
  "uminus_cint (CInt a) = CInt (- a)"

fun times_cint :: "cint \<Rightarrow> cint \<Rightarrow> cint" where
  "times_cint (CInt a) (CInt b) = CInt (a * b)"

instance
proof
  fix a b c :: cint
  show "a + b + c = a + (b + c)"
    by (cases a; cases b; cases c) simp
  show "a + b = b + a"
    by (cases a; cases b) simp
  show "0 + a = a"
    by (cases a) (simp add: zero_cint_def)
  show "- a + a = 0"
    by (cases a) (simp add: zero_cint_def)
  show "a - b = a + - b"
    by (cases a; cases b) simp
  show "a * b * c = a * (b * c)"
    by (cases a; cases b; cases c) simp
  show "a * b = b * a"
    by (cases a; cases b) simp
  show "1 * a = a"
    by (cases a) (simp add: one_cint_def)
  show "(a + b) * c = a * c + b * c"
    by (cases a; cases b; cases c) (simp add: algebra_simps)
  show "(0::cint) \<noteq> 1"
    by (simp add: zero_cint_def one_cint_def)
qed

end

instantiation cint :: "{divide,ord}"
begin

fun divide_cint :: "cint \<Rightarrow> cint \<Rightarrow> cint" where
  "divide_cint (CInt a) (CInt b) = CInt (word_of_int (quot (sint a) (sint b)))"

fun less_cint :: "cint \<Rightarrow> cint \<Rightarrow> bool" where
  "less_cint (CInt a) (CInt b) = (sint a < sint b)"

fun less_eq_cint :: "cint \<Rightarrow> cint \<Rightarrow> bool" where
  "less_eq_cint (CInt a) (CInt b) = (sint a \<le> sint b)"

instance ..

end

section \<open>The class \<^verbatim>\<open>Vector<T, N>\<close>\<close>

text \<open>
  The class has one data member, \<^verbatim>\<open>std::array<T, N> data\<close>. A value of \<^verbatim>\<open>Vector<T, N>\<close>
  always holds exactly \<open>N\<close> components; \<open>has_dim N v\<close> says so of a record.
\<close>

record 'a Vector =
  data :: "'a list"

definition has_dim :: "nat \<Rightarrow> 'a Vector \<Rightarrow> bool" where
  "has_dim N v = (length (data v) = N)"

text \<open>
  The three \<^verbatim>\<open>assert\<close>s of the header, as they behave in a build that checks them: a
  failed one aborts the program and no value is returned.
\<close>

datatype error = SizeMismatch | DivisionByZero | IndexOutOfBounds

subsection \<open>Constructors\<close>

text \<open>\<^verbatim>\<open>Vector() : data{} {}\<close> value-initialises the array.\<close>

definition Vector_default :: "nat \<Rightarrow> 'a::zero Vector" where
  "Vector_default N = \<lparr>data = replicate N 0\<rparr>"

text \<open>
  \<^verbatim>\<open>Vector(std::initializer_list<T> list)\<close> leaves \<^verbatim>\<open>data\<close> default-initialised, so its
  \<open>N\<close> components hold indeterminate values (\<open>undefined\<close>) until the loop stores into them.
  \<open>fill\<close> is the range-for loop with its counter \<^verbatim>\<open>i\<close>.
\<close>

fun fill :: "'a list \<Rightarrow> nat \<Rightarrow> 'a list \<Rightarrow> 'a list" where
  "fill [] i d = d"
| "fill (element # rest) i d = fill rest (Suc i) (d[i := element])"

definition Vector_list :: "nat \<Rightarrow> 'a list \<Rightarrow> error + 'a Vector" where
  "Vector_list N list =
     (if length list = N then Inr \<lparr>data = fill list 0 (replicate N undefined)\<rparr>
      else Inl SizeMismatch)"

subsection \<open>Named accessors\<close>

text \<open>\<^verbatim>\<open>x()\<close>, \<^verbatim>\<open>y()\<close> and \<^verbatim>\<open>z()\<close> return \<^verbatim>\<open>data[0]\<close>, \<^verbatim>\<open>data[1]\<close> and \<^verbatim>\<open>data[2]\<close>.\<close>

definition x_of :: "'a Vector \<Rightarrow> 'a" where
  "x_of v = data v ! 0"

definition y_of :: "'a Vector \<Rightarrow> 'a" where
  "y_of v = data v ! 1"

definition z_of :: "'a Vector \<Rightarrow> 'a" where
  "z_of v = data v ! 2"

text \<open>
  \<^verbatim>\<open>operator[]\<close>, both overloads: \<^verbatim>\<open>assert(index < N)\<close>, then \<^verbatim>\<open>data[index]\<close>. The loops
  below call it only under their own condition \<^verbatim>\<open>i < N\<close>, where it is the plain read
  \<open>data v ! i\<close> (lemma \<open>subscript_in_loop\<close>).
\<close>

definition subscript :: "nat \<Rightarrow> 'a Vector \<Rightarrow> nat \<Rightarrow> error + 'a" where
  "subscript N v index = (if index < N then Inr (data v ! index) else Inl IndexOutOfBounds)"

subsection \<open>Compound assignment\<close>

text \<open>
  \<^verbatim>\<open>operator*=\<close> and \<^verbatim>\<open>operator/=\<close> run the same loop,
  \<^verbatim>\<open>for (size_t i = 0; i < N; ++i) data[i] *= c;\<close> with \<^verbatim>\<open>c\<close> the scalar or its reciprocal.
  A mutating member returns the object as it is after the call.
\<close>

function scale_loop :: "nat \<Rightarrow> 'a::times \<Rightarrow> nat \<Rightarrow> 'a list \<Rightarrow> 'a list" where
  "scale_loop N c i d = (if i < N then scale_loop N c (Suc i) (d[i := d ! i * c]) else d)"
  by pat_completeness auto
termination
  by (relation "measure (\<lambda>(N, c, i, d). N - i)") auto

declare scale_loop.simps [simp del]

definition times_assign :: "nat \<Rightarrow> 'a::times Vector \<Rightarrow> 'a \<Rightarrow> 'a Vector" where
  "times_assign N v scalar = \<lparr>data = scale_loop N scalar 0 (data v)\<rparr>"

definition divide_assign :: "nat \<Rightarrow> 'a::{zero,one,times,divide} Vector \<Rightarrow> 'a \<Rightarrow> error + 'a Vector" where
  "divide_assign N v scalar =
     (if scalar = 0 then Inl DivisionByZero
      else (let inv_scalar = 1 div scalar
            in Inr \<lparr>data = scale_loop N inv_scalar 0 (data v)\<rparr>))"

subsection \<open>Binary operators\<close>

text \<open>
  Each takes the vector by value and applies the compound operator to that copy, so the
  caller's operands keep their values; the result is the copy.
\<close>

definition times_vs :: "nat \<Rightarrow> 'a::times Vector \<Rightarrow> 'a \<Rightarrow> 'a Vector" where
  "times_vs N lhs scalar = times_assign N lhs scalar"

definition times_sv :: "nat \<Rightarrow> 'a::times \<Rightarrow> 'a Vector \<Rightarrow> 'a Vector" where
  "times_sv N scalar rhs = times_assign N rhs scalar"

definition divide_vs :: "nat \<Rightarrow> 'a::{zero,one,times,divide} Vector \<Rightarrow> 'a \<Rightarrow> error + 'a Vector" where
  "divide_vs N lhs scalar = divide_assign N lhs scalar"

subsection \<open>Dot product, cross product, norm\<close>

text \<open>
  \<^verbatim>\<open>dot\<close>: \<^verbatim>\<open>T sum = T(0); for (size_t i = 0; i < N; ++i) sum += data[i] * other[i];\<close>
  The accumulator \<^verbatim>\<open>sum\<close> is \<open>acc\<close>; \<^verbatim>\<open>other[i]\<close> is the checked subscript under \<^verbatim>\<open>i < N\<close>.
\<close>

function dot_loop :: "nat \<Rightarrow> 'a::{plus,times} list \<Rightarrow> 'a list \<Rightarrow> nat \<Rightarrow> 'a \<Rightarrow> 'a" where
  "dot_loop N d other i acc =
     (if i < N then dot_loop N d other (Suc i) (acc + d ! i * other ! i) else acc)"
  by pat_completeness auto
termination
  by (relation "measure (\<lambda>(N, d, other, i, acc). N - i)") auto

declare dot_loop.simps [simp del]

definition dot :: "nat \<Rightarrow> 'a::{zero,plus,times} Vector \<Rightarrow> 'a Vector \<Rightarrow> 'a" where
  "dot N v other = dot_loop N (data v) (data other) 0 0"

text \<open>
  \<^verbatim>\<open>cross\<close> carries \<^verbatim>\<open>static_assert(N == 3)\<close>, so it exists for \<open>N = 3\<close> only. Its braced
  return value goes through the initializer-list constructor.
\<close>

definition cross :: "'a::{minus,times} Vector \<Rightarrow> 'a Vector \<Rightarrow> error + 'a Vector" where
  "cross v other =
     Vector_list 3
       [y_of v * z_of other - z_of v * y_of other,
        z_of v * x_of other - x_of v * z_of other,
        x_of v * y_of other - y_of v * x_of other]"

definition normSq :: "nat \<Rightarrow> 'a::{zero,plus,times} Vector \<Rightarrow> 'a" where
  "normSq N v = dot N v v"

text \<open>
  \<^verbatim>\<open>norm\<close> and \<^verbatim>\<open>normalized\<close> leave \<^verbatim>\<open>T\<close>: \<^verbatim>\<open>std::sqrt\<close> works on a floating-point
  value and its result is converted back to \<^verbatim>\<open>T\<close> by the \<^verbatim>\<open>return\<close>, and \<^verbatim>\<open>T(1e-8)\<close>
  converts a \<^verbatim>\<open>double\<close> literal to \<^verbatim>\<open>T\<close>. The two conversions of an element type are
  passed as a record. For a floating-point \<^verbatim>\<open>T\<close> both are the identity; for \<^verbatim>\<open>int\<close> the
  way back truncates towards zero.
\<close>

record 'a conversions =
  to_double :: "'a \<Rightarrow> real"
  from_double :: "real \<Rightarrow> 'a"

definition floating_point :: "real conversions" where
  "floating_point = \<lparr>to_double = (\<lambda>r. r), from_double = (\<lambda>r. r)\<rparr>"

definition int32 :: "cint conversions" where
  "int32 =
     \<lparr>to_double = (\<lambda>c. case c of CInt k \<Rightarrow> real_of_int (sint k)),
      from_double = (\<lambda>r. CInt (word_of_int (if 0 \<le> r then \<lfloor>r\<rfloor> else \<lceil>r\<rceil>)))\<rparr>"

definition norm_vec :: "'a conversions \<Rightarrow> nat \<Rightarrow> 'a::{zero,plus,times} Vector \<Rightarrow> 'a" where
  "norm_vec cv N v = from_double cv (sqrt (to_double cv (normSq N v)))"

definition normalized ::
  "'a conversions \<Rightarrow> nat \<Rightarrow> 'a::{zero,one,plus,times,divide,ord} Vector \<Rightarrow> error + 'a Vector" where
  "normalized cv N v =
     (let len = norm_vec cv N v
      in if len < from_double cv (1 / 10 ^ 8) then Inr (Vector_default N)
         else divide_vs N v len)"

text \<open>\<^verbatim>\<open>normalize\<close> assigns \<^verbatim>\<open>normalized()\<close> to the object; the result is the new object.\<close>

definition normalize ::
  "'a conversions \<Rightarrow> nat \<Rightarrow> 'a::{zero,one,plus,times,divide,ord} Vector \<Rightarrow> error + 'a Vector" where
  "normalize cv N v = normalized cv N v"

subsection \<open>Free functions\<close>

definition dot_free :: "nat \<Rightarrow> 'a::{zero,plus,times} Vector \<Rightarrow> 'a Vector \<Rightarrow> 'a" where
  "dot_free N a b = dot N a b"

definition cross_free :: "'a::{minus,times} Vector \<Rightarrow> 'a Vector \<Rightarrow> error + 'a Vector" where
  "cross_free a b = cross a b"

subsection \<open>Stream output\<close>

text \<open>
  \<^verbatim>\<open>operator<<\<close>. The stream is the text written to it so far. How one component is
  printed belongs to the element type and the stream's format flags, not to this header:
  \<open>put\<close> is that text. \<^verbatim>\<open>N - 1\<close> is evaluated only inside the loop, where \<open>N \<ge> 1\<close>, so the
  unsigned subtraction does not wrap.
\<close>

function write_loop :: "('a \<Rightarrow> string) \<Rightarrow> nat \<Rightarrow> 'a list \<Rightarrow> nat \<Rightarrow> string \<Rightarrow> string" where
  "write_loop put N d i os =
     (if i < N
      then write_loop put N d (Suc i)
             (let os' = os @ put (d ! i) in if i < N - 1 then os' @ '', '' else os')
      else os)"
  by pat_completeness auto
termination
  by (relation "measure (\<lambda>(put, N, d, i, os). N - i)") auto

declare write_loop.simps [simp del]

definition shift_left :: "('a \<Rightarrow> string) \<Rightarrow> nat \<Rightarrow> string \<Rightarrow> 'a Vector \<Rightarrow> string" where
  "shift_left put N os v = write_loop put N (data v) 0 (os @ ''['') @ '']''"

section \<open>The documented behaviour, stated independently\<close>

text \<open>The rendering of the specification: the parts in order, \<open>'', ''\<close> between neighbours.\<close>

fun separated :: "string list \<Rightarrow> string" where
  "separated [] = []"
| "separated [c] = c"
| "separated (c # c' # cs) = c @ '', '' @ separated (c' # cs)"

definition rendering :: "('a \<Rightarrow> string) \<Rightarrow> 'a Vector \<Rightarrow> string" where
  "rendering put v = ''['' @ separated (map put (data v)) @ '']''"

section \<open>Loops as maps\<close>

lemma subscript_in_loop: "i < N \<Longrightarrow> subscript N v i = Inr (data v ! i)"
  by (simp add: subscript_def)

lemma fill_eq:
  "i + length l \<le> length d \<Longrightarrow> fill l i d = take i d @ l @ drop (i + length l) d"
proof (induction l arbitrary: i d)
  case Nil
  then show ?case by simp
next
  case (Cons e l)
  have "fill (e # l) i d = take (Suc i) (d[i := e]) @ l @ drop (Suc i + length l) (d[i := e])"
    using Cons.prems by (simp add: Cons.IH)
  also have "take (Suc i) (d[i := e]) = take i d @ [e]"
    using Cons.prems by (simp add: take_Suc_conv_app_nth)
  also have "drop (Suc i + length l) (d[i := e]) = drop (i + length (e # l)) d"
    by simp
  finally show ?case by simp
qed

lemma fill_all: "length d = length l \<Longrightarrow> fill l 0 d = l"
  by (simp add: fill_eq)

lemma Vector_list_eq:
  "Vector_list N list = (if length list = N then Inr \<lparr>data = list\<rparr> else Inl SizeMismatch)"
  by (simp add: Vector_list_def fill_all del: fill.simps)

lemma scale_loop_eq:
  "length d = N \<Longrightarrow> i \<le> N \<Longrightarrow> scale_loop N c i d = take i d @ map (\<lambda>e. e * c) (drop i d)"
proof (induction N c i d rule: scale_loop.induct)
  case (1 N c i d)
  show ?case
  proof (cases "i < N")
    case True
    then have "drop i d = d ! i # drop (Suc i) d"
      using "1.prems" by (simp add: Cons_nth_drop_Suc)
    moreover have "take (Suc i) (d[i := d ! i * c]) = take i d @ [d ! i * c]"
      using True "1.prems" by (simp add: take_Suc_conv_app_nth)
    ultimately show ?thesis
      using True "1.prems" "1.IH" by (simp add: scale_loop.simps [of N c i d])
  next
    case False
    then have "i = N"
      using "1.prems" by simp
    then show ?thesis
      using "1.prems" by (simp add: scale_loop.simps [of N c N d])
  qed
qed

lemma scale_loop_map: "length d = N \<Longrightarrow> scale_loop N c 0 d = map (\<lambda>e. e * c) d"
  by (simp add: scale_loop_eq)

lemma dot_loop_sum:
  fixes d :: "'a::comm_semiring_0 list"
  shows "dot_loop N d other i acc = acc + (\<Sum>k = i..<N. d ! k * other ! k)"
proof (induction N d other i acc rule: dot_loop.induct)
  case (1 N d other i acc)
  show ?case
  proof (cases "i < N")
    case True
    then show ?thesis
      using "1.IH"
      by (simp add: dot_loop.simps [of N d other i acc] sum.atLeast_Suc_lessThan add.assoc)
  next
    case False
    then show ?thesis
      by (simp add: dot_loop.simps [of N d other i acc])
  qed
qed

lemma dot_sum:
  fixes v :: "'a::comm_semiring_0 Vector"
  shows "dot N v other = (\<Sum>k<N. data v ! k * data other ! k)"
  by (simp add: dot_def dot_loop_sum atLeast0LessThan)

lemma separated_Cons: "cs \<noteq> [] \<Longrightarrow> separated (c # cs) = c @ '', '' @ separated cs"
  by (cases cs) simp_all

lemma write_loop_eq:
  "length d = N \<Longrightarrow> i \<le> N \<Longrightarrow>
   write_loop put N d i os = os @ separated (map put (drop i d))"
proof (induction put N d i os rule: write_loop.induct)
  case (1 put N d i os)
  show ?case
  proof (cases "i < N")
    case True
    then have split: "drop i d = d ! i # drop (Suc i) d"
      using "1.prems" by (simp add: Cons_nth_drop_Suc)
    show ?thesis
    proof (cases "i < N - 1")
      case True
      then have "map put (drop (Suc i) d) \<noteq> []"
        using "1.prems" by simp
      then show ?thesis
        using True \<open>i < N\<close> "1.prems" "1.IH" split
        by (simp add: write_loop.simps [of put N d i os] separated_Cons)
    next
      case False
      then have "drop (Suc i) d = []"
        using \<open>i < N\<close> "1.prems" by simp
      then show ?thesis
        using False \<open>i < N\<close> "1.prems" "1.IH" split
        by (simp add: write_loop.simps [of put N d i os])
    qed
  next
    case False
    then have "i = N"
      using "1.prems" by simp
    then show ?thesis
      using "1.prems" by (simp add: write_loop.simps [of put N d N os])
  qed
qed

lemma cross_eq:
  "cross v other =
     Inr \<lparr>data = [y_of v * z_of other - z_of v * y_of other,
                  z_of v * x_of other - x_of v * z_of other,
                  x_of v * y_of other - y_of v * x_of other]\<rparr>"
  by (simp add: cross_def Vector_list_eq)

section \<open>Construction\<close>

text \<open>
  C8. A default-constructed vector of any element type and any dimension \<open>N\<close> has \<open>N\<close>
  components, each equal to zero.
\<close>

theorem default_all_zero:
  "has_dim N (Vector_default N :: 'a::zero Vector) \<and>
   (\<forall>i<N. data (Vector_default N :: 'a::zero Vector) ! i = 0)"
  by (simp add: Vector_default_def has_dim_def)

theorem default_all_zero_witness:
  "has_dim 3 (Vector_default 3 :: real Vector) \<and>
   data (Vector_default 3 :: real Vector) ! 2 = 0"
  using default_all_zero [of 3, where ?'a = real] by simp

text \<open>
  C3. Constructing from a list of exactly \<open>N\<close> values gives a vector of dimension \<open>N\<close>
  whose component \<open>i\<close> is element \<open>i\<close> of the list, for every \<open>i\<close>; a list of any other
  length fails the size assertion, and no vector is produced.
\<close>

theorem list_constructor:
  "(length list = N \<longrightarrow>
      (\<exists>v. Vector_list N list = Inr v \<and> has_dim N v \<and> (\<forall>i<N. data v ! i = list ! i))) \<and>
   (length list \<noteq> N \<longrightarrow> Vector_list N list = Inl SizeMismatch)"
  by (simp add: Vector_list_eq has_dim_def)

theorem list_constructor_witness:
  "Vector_list 3 [1, 2, 3 :: real] = Inr \<lparr>data = [1, 2, 3]\<rparr> \<and>
   Vector_list 3 [1, 2 :: real] = Inl SizeMismatch"
  using list_constructor [of "[1, 2, 3 :: real]" 3] list_constructor [of "[1, 2 :: real]" 3]
  by (simp add: Vector_list_eq)

section \<open>Scalar multiplication and division\<close>

text \<open>
  C7. For a vector \<open>v\<close> of dimension \<open>N\<close> and a scalar \<open>s\<close>, \<^verbatim>\<open>v * s\<close> and \<^verbatim>\<open>s * v\<close> are
  the same vector, the one whose component \<open>i\<close> is \<open>v[i] * s\<close>. Both are functions of their
  operands and return a new vector, so neither operand changes.
\<close>

theorem scalar_times_commutes:
  "has_dim N v \<Longrightarrow>
   times_vs N v s = times_sv N s v \<and>
   times_vs N v s = \<lparr>data = map (\<lambda>c. c * s) (data v)\<rparr>"
  by (simp add: times_vs_def times_sv_def times_assign_def has_dim_def scale_loop_map)

theorem scalar_times_commutes_witness:
  "times_vs 3 \<lparr>data = [1, 2, 3 :: real]\<rparr> 2 = \<lparr>data = [2, 4, 6]\<rparr> \<and>
   times_sv 3 2 \<lparr>data = [1, 2, 3 :: real]\<rparr> = \<lparr>data = [2, 4, 6]\<rparr>"
  using scalar_times_commutes [of 3 "\<lparr>data = [1, 2, 3 :: real]\<rparr>" 2]
  by (auto simp add: has_dim_def)

text \<open>
  What \<^verbatim>\<open>v / s\<close> computes for any element type, and that it is the component-wise
  quotient when the element type is a field.
\<close>

lemma divide_vs_reciprocal:
  "has_dim N v \<Longrightarrow> s \<noteq> 0 \<Longrightarrow>
   divide_vs N v s = Inr \<lparr>data = map (\<lambda>c. c * (1 div s)) (data v)\<rparr>"
  by (simp add: divide_vs_def divide_assign_def has_dim_def scale_loop_map Let_def)

lemma divide_vs_field:
  fixes v :: "'a::field Vector"
  shows "has_dim N v \<Longrightarrow> s \<noteq> 0 \<Longrightarrow>
   divide_vs N v s = Inr \<lparr>data = map (\<lambda>c. c / s) (data v)\<rparr>"
  by (simp add: divide_vs_reciprocal)

lemma divide_assign_field:
  fixes v :: "'a::field Vector"
  shows "has_dim N v \<Longrightarrow> s \<noteq> 0 \<Longrightarrow>
   divide_assign N v s = Inr \<lparr>data = map (\<lambda>c. c / s) (data v)\<rparr>"
  using divide_vs_field [of N v s] by (simp add: divide_vs_def)

text \<open>
  C1. On \<^verbatim>\<open>Vector<int, 2>\<close> the reciprocal is itself an integer quotient: dividing
  \<open>(4, 6)\<close> by \<open>2\<close> multiplies each component by \<open>1 / 2 = 0\<close> and returns \<open>(0, 0)\<close>, while
  dividing each component by \<open>2\<close> gives \<open>(2, 3)\<close>.
\<close>

theorem divide_int_by_reciprocal:
  "divide_vs 2 \<lparr>data = [CInt 4, CInt 6]\<rparr> (CInt 2) = Inr \<lparr>data = [CInt 0, CInt 0]\<rparr> \<and>
   divide_assign 2 \<lparr>data = [CInt 4, CInt 6]\<rparr> (CInt 2) = Inr \<lparr>data = [CInt 0, CInt 0]\<rparr> \<and>
   map (\<lambda>c. c div CInt 2) [CInt 4, CInt 6] = [CInt 2, CInt 3]"
  by (simp add: divide_vs_def divide_assign_def scale_loop_map zero_cint_def one_cint_def
      quot_def Let_def)

section \<open>Dot and cross product\<close>

text \<open>
  C6. For vectors \<open>a\<close> and \<open>b\<close> of dimension \<open>N\<close> over a commutative semiring, \<open>dot(a, b)\<close>
  equals \<open>dot(b, a)\<close>, both are the sum of \<open>a[i] * b[i]\<close> over \<open>i < N\<close>, and the free function
  agrees with the member.
\<close>

theorem dot_symmetric:
  fixes a b :: "'a::comm_semiring_0 Vector"
  shows "dot_free N a b = dot_free N b a \<and>
         dot_free N a b = (\<Sum>i<N. data a ! i * data b ! i) \<and>
         dot N a b = dot_free N a b"
  by (simp add: dot_free_def dot_sum mult.commute)

text \<open>
  C4. With \<open>unitX = (1, 0, 0)\<close> and \<open>unitY = (0, 1, 0)\<close> built by the list constructor,
  \<open>cross(unitX, unitY) = (0, 0, 1)\<close> and \<open>cross(unitY, unitX) = (0, 0, -1)\<close>, over any ring.
\<close>

theorem cross_unit_vectors:
  "Vector_list 3 [1, 0, 0 :: 'a::ring_1] = Inr \<lparr>data = [1, 0, 0]\<rparr> \<and>
   Vector_list 3 [0, 1, 0 :: 'a] = Inr \<lparr>data = [0, 1, 0]\<rparr> \<and>
   cross_free \<lparr>data = [1, 0, 0 :: 'a]\<rparr> \<lparr>data = [0, 1, 0]\<rparr> = Inr \<lparr>data = [0, 0, 1]\<rparr> \<and>
   cross_free \<lparr>data = [0, 1, 0 :: 'a]\<rparr> \<lparr>data = [1, 0, 0]\<rparr> = Inr \<lparr>data = [0, 0, - 1]\<rparr>"
  by (simp add: cross_free_def cross_eq x_of_def y_of_def z_of_def Vector_list_eq)

text \<open>
  C5. For three-dimensional vectors \<open>a\<close> and \<open>b\<close> over a commutative ring, \<open>cross(b, a)\<close>
  returns a vector \<open>c\<close>, and \<open>cross(a, b)\<close> returns the vector whose every component is the
  negation of the corresponding component of \<open>c\<close>; the free function agrees with the member.
\<close>

theorem cross_anticommutative:
  fixes a b :: "'a::comm_ring Vector"
  shows "\<exists>c. cross_free b a = Inr c \<and>
             cross_free a b = Inr \<lparr>data = map uminus (data c)\<rparr> \<and>
             cross a b = cross_free a b \<and> cross b a = cross_free b a"
  by (simp add: cross_free_def cross_eq mult.commute)

section \<open>Stream output\<close>

text \<open>
  C9. Writing a vector of dimension \<open>N\<close> to a stream appends \<open>[\<close>, the \<open>N\<close> components in
  index order with \<open>'', ''\<close> between neighbours and nothing after the last, and \<open>]\<close>.
\<close>

theorem shift_left_rendering:
  "has_dim N v \<Longrightarrow> shift_left put N os v = os @ rendering put v"
  by (simp add: shift_left_def rendering_def has_dim_def write_loop_eq)

theorem shift_left_rendering_witness:
  "shift_left (\<lambda>r :: real. if r = 0 then ''0'' else ''1'') 3 ''Up (RxF):'' \<lparr>data = [0, 0, 1]\<rparr> =
     ''Up (RxF):[0, 0, 1]''"
  using shift_left_rendering
    [of 3 "\<lparr>data = [0, 0, 1 :: real]\<rparr>" "\<lambda>r. if r = 0 then ''0'' else ''1''" "''Up (RxF):''"]
  by (simp add: has_dim_def rendering_def)

section \<open>Normalisation\<close>

subsection \<open>Floating-point element types, in exact arithmetic\<close>

lemma normSq_real: "normSq N (v :: real Vector) = (\<Sum>k<N. (data v ! k)\<^sup>2)"
  by (simp add: normSq_def dot_sum power2_eq_square)

lemma norm_real: "norm_vec floating_point N v = sqrt (\<Sum>k<N. (data v ! k)\<^sup>2)"
  by (simp add: norm_vec_def floating_point_def normSq_real)

lemma norm_real_nonneg: "0 \<le> norm_vec floating_point N v"
  by (simp add: norm_real sum_nonneg)

text \<open>
  Below the tolerance the result is the zero vector; from the tolerance on, the divisor is
  positive, the division does not abort, and the result is \<open>v\<close> with each component divided
  by the norm.
\<close>

lemma normalized_real:
  assumes "has_dim N v"
  shows "normalized floating_point N v =
    (if norm_vec floating_point N v < 1 / 10 ^ 8 then Inr (Vector_default N)
     else Inr \<lparr>data = map (\<lambda>c. c / norm_vec floating_point N v) (data v)\<rparr>)"
proof (cases "norm_vec floating_point N v < 1 / 10 ^ 8")
  case True
  then show ?thesis
    by (simp add: normalized_def floating_point_def Let_def)
next
  case False
  then have "norm_vec floating_point N v \<noteq> 0"
    by auto
  then show ?thesis
    using False assms
    by (simp add: normalized_def Let_def divide_vs_field) (simp add: floating_point_def)
qed

lemma normalized_real_total:
  "has_dim N v \<Longrightarrow> \<exists>w. normalized floating_point N v = Inr w \<and> has_dim N w"
  by (simp add: normalized_real has_dim_def Vector_default_def)

text \<open>The result of the division has norm one.\<close>

lemma norm_scaled:
  assumes "has_dim N v" and "0 < norm_vec floating_point N v"
  shows "norm_vec floating_point N
           \<lparr>data = map (\<lambda>c. c / norm_vec floating_point N v) (data v)\<rparr> = 1"
proof -
  define len where "len = norm_vec floating_point N v"
  have "(\<Sum>k<N. (map (\<lambda>c. c / len) (data v) ! k)\<^sup>2) = (\<Sum>k<N. (data v ! k)\<^sup>2 / len\<^sup>2)"
    using assms(1) by (intro sum.cong) (simp_all add: power_divide has_dim_def)
  also have "\<dots> = (\<Sum>k<N. (data v ! k)\<^sup>2) / len\<^sup>2"
    by (simp add: sum_divide_distrib)
  also have "(\<Sum>k<N. (data v ! k)\<^sup>2) = len\<^sup>2"
    by (simp add: len_def norm_real sum_nonneg)
  finally have "(\<Sum>k<N. (map (\<lambda>c. c / len) (data v) ! k)\<^sup>2) = 1"
    using assms(2) by (simp add: len_def)
  then show ?thesis
    by (simp add: norm_real len_def)
qed

lemma normalized_real_unit:
  assumes "has_dim N v" and "\<not> norm_vec floating_point N v < 1 / 10 ^ 8"
    and "normalized floating_point N v = Inr w"
  shows "norm_vec floating_point N w = 1"
proof -
  have "0 < norm_vec floating_point N v"
    using assms(2) by (simp add: not_less)
  moreover have "w = \<lparr>data = map (\<lambda>c. c / norm_vec floating_point N v) (data v)\<rparr>"
    using assms by (simp add: normalized_real)
  ultimately show ?thesis
    using assms(1) norm_scaled [of N v] by simp
qed

subsection \<open>The element type \<^verbatim>\<open>int\<close>\<close>

text \<open>
  C2. On \<^verbatim>\<open>Vector<int, 3>\<close> the vector \<open>(0, 0, 2)\<close> has norm \<open>2\<close>, which is not below the
  tolerance, and \<open>normalized()\<close> returns \<open>(0, 0, 0)\<close>, which is not of unit length; each
  component divided by the norm is \<open>(0, 0, 1)\<close>.
\<close>

theorem normalized_int_not_unit:
  "norm_vec int32 3 \<lparr>data = [CInt 0, CInt 0, CInt 2]\<rparr> = CInt 2 \<and>
   \<not> CInt 2 < from_double int32 (1 / 10 ^ 8) \<and>
   normalized int32 3 \<lparr>data = [CInt 0, CInt 0, CInt 2]\<rparr> = Inr \<lparr>data = [CInt 0, CInt 0, CInt 0]\<rparr> \<and>
   map (\<lambda>c. c div CInt 2) [CInt 0, CInt 0, CInt 2] = [CInt 0, CInt 0, CInt 1]"
  by (simp add: normalized_def norm_vec_def normSq_def dot_def dot_loop.simps int32_def
      divide_vs_def divide_assign_def scale_loop_map zero_cint_def one_cint_def quot_def Let_def)

text \<open>
  C10. On \<^verbatim>\<open>Vector<int, 3>\<close> the tolerance \<^verbatim>\<open>T(1e-8)\<close> is \<open>0\<close>. The zero vector has norm
  \<open>0\<close>, which is not below \<open>0\<close>, so \<open>normalized()\<close> divides by \<open>0\<close> and the assertion of the
  division fails.
\<close>

theorem normalized_int_zero_aborts:
  "from_double int32 (1 / 10 ^ 8) = 0 \<and>
   norm_vec int32 3 (Vector_default 3) = 0 \<and>
   normalized int32 3 (Vector_default 3) = Inl DivisionByZero"
  by (simp add: normalized_def norm_vec_def normSq_def dot_def dot_loop.simps int32_def
      Vector_default_def numeral_3_eq_3 divide_vs_def divide_assign_def zero_cint_def Let_def)

end
